theory Spec2Isabelle
  imports Main
begin

section \<open>Access levels and access checkers\<close>

text \<open>
  \<^verbatim>\<open>AccessLevel\<close> is imported by \<^verbatim>\<open>WidgetFrame.ts\<close> from
  \<^verbatim>\<open>app/common/CustomWidget\<close>; the three levels are the ones the file names
  (\<^verbatim>\<open>AccessLevel.none\<close>, \<^verbatim>\<open>AccessLevel.read_table\<close>, \<^verbatim>\<open>AccessLevel.full\<close>).
\<close>

datatype AccessLevel = none | read_table | full

text \<open>
  Modelled from the spec: \<^verbatim>\<open>isSatisfied\<close> of \<^verbatim>\<open>app/common/CustomWidget\<close> is imported
  by \<^verbatim>\<open>WidgetFrame.ts\<close> and its body is not part of it. The spec gives the levels the
  total order \<^verbatim>\<open>none < read_table < full\<close> and lets a granted level satisfy a minimum
  when the minimum is below or equal to it.
\<close>

fun ordered :: "AccessLevel \<Rightarrow> nat" where
  "ordered none = 0"
| "ordered read_table = 1"
| "ordered full = 2"

definition isSatisfied :: "AccessLevel \<Rightarrow> AccessLevel \<Rightarrow> bool" where
  "isSatisfied current minimum = (ordered minimum \<le> ordered current)"

text \<open>
  Failures raised by the code of \<^verbatim>\<open>WidgetFrame.ts\<close>, as values:
  \<^item> \<open>AccessNotGranted a\<close> is \<^verbatim>\<open>new Error('Access not granted. Current access level ' + a)\<close>
    of \<^verbatim>\<open>throwError\<close>; the level is the only varying part of the message;
  \<^item> \<open>MethodNameRequired\<close> is
    \<^verbatim>\<open>new Error('Method name is required for MethodAccess check')\<close>;
  \<^item> \<open>NotAFunction m\<close> is the TypeError of calling \<^verbatim>\<open>target[m]\<close> when the target has
    no function under that name;
  \<^item> \<open>ImplFailure s\<close> is whatever failure a wrapped implementation raises itself.
\<close>

datatype js_error =
    AccessNotGranted AccessLevel
  | MethodNameRequired
  | NotAFunction string
  | ImplFailure string

text \<open>
  The interface \<^verbatim>\<open>AccessChecker\<close>: \<^verbatim>\<open>check(access, method?)\<close>. The optional method
  is a \<open>string option\<close>; a check either returns a boolean or throws.
\<close>

type_synonym AccessChecker = "AccessLevel \<Rightarrow> string option \<Rightarrow> js_error + bool"

text \<open>\<^verbatim>\<open>MinimumLevel.check\<close>: the method is ignored.\<close>

definition MinimumLevel_check :: "AccessLevel \<Rightarrow> AccessChecker" where
  "MinimumLevel_check minimum access method = Inr (isSatisfied access minimum)"

text \<open>
  \<^verbatim>\<open>MethodAccess\<close>: the private \<^verbatim>\<open>_accessMap\<close> is a map from method matcher to level.
  \<^verbatim>\<open>require(level, method = '*')\<close> stores the level under the matcher.
\<close>

type_synonym accessMap = "string \<rightharpoonup> AccessLevel"

definition require :: "AccessLevel \<Rightarrow> string option \<Rightarrow> accessMap \<Rightarrow> accessMap" where
  "require level method accessMap =
     accessMap((case method of None \<Rightarrow> ''*'' | Some m \<Rightarrow> m) \<mapsto> level)"

text \<open>
  JavaScript's \<^verbatim>\<open>!method\<close> on an optional string: true for \<^verbatim>\<open>undefined\<close> and for
  the empty string.
\<close>

definition not_method :: "string option \<Rightarrow> bool" where
  "not_method method = (case method of None \<Rightarrow> True | Some m \<Rightarrow> m = [])"

text \<open>\<^verbatim>\<open>MethodAccess.check\<close>, branch by branch.\<close>

definition MethodAccess_check :: "accessMap \<Rightarrow> AccessChecker" where
  "MethodAccess_check accessMap access method =
     (if not_method method then Inl MethodNameRequired
      else case method of
        None \<Rightarrow> Inl MethodNameRequired
      | Some m \<Rightarrow>
          (case accessMap m of
             Some minimum \<Rightarrow> Inr (isSatisfied access minimum)
           | None \<Rightarrow>
               (case accessMap ''*'' of
                  Some minimum \<Rightarrow> Inr (isSatisfied access minimum)
                | None \<Rightarrow> Inr False)))"

text \<open>
  The rule the spec resolves for a method: the exact-name entry if present, else the
  wildcard entry if present, else none (implicit deny). This definition follows the spec's
  words, to be compared with \<open>MethodAccess_check\<close>.
\<close>

definition spec_resolved_rule :: "accessMap \<Rightarrow> string \<Rightarrow> AccessLevel option" where
  "spec_resolved_rule accessMap m =
     (if m \<in> dom accessMap then accessMap m
      else if ''*'' \<in> dom accessMap then accessMap ''*''
      else None)"

definition spec_permits :: "accessMap \<Rightarrow> AccessLevel \<Rightarrow> string \<Rightarrow> bool" where
  "spec_permits accessMap L m =
     (case spec_resolved_rule accessMap m of
        None \<Rightarrow> False
      | Some minimum \<Rightarrow> ordered minimum \<le> ordered L)"

section \<open>The access gate\<close>

text \<open>
  Values that cross the gate. Only their identity matters to the gate, which passes
  arguments and results through unchanged.
\<close>

datatype js_value = Undefined | Null | JBool bool | JNum int | JStr string

text \<open>
  A method of an implementation takes its argument list and returns a value or throws.
  An implementation object is read by method name (\<^verbatim>\<open>target[methodName]\<close>): \<open>None\<close>
  when the object has no function under that name.
\<close>

type_synonym method_impl = "js_value list \<Rightarrow> js_error + js_value"

type_synonym api_impl = "string \<Rightarrow> method_impl option"

text \<open>
  What a gated call does besides returning is kept as a log: each evaluation of the access
  checker and each invocation of the underlying implementation, in order.
\<close>

datatype effect = Checked AccessLevel "string option" | Invoked string "js_value list"

type_synonym outcome = "(js_error + js_value) \<times> effect list"

fun is_Invoked :: "effect \<Rightarrow> bool" where
  "is_Invoked (Invoked m a) = True"
| "is_Invoked (Checked a m) = False"

fun is_Checked :: "effect \<Rightarrow> bool" where
  "is_Checked (Checked a m) = True"
| "is_Checked (Invoked m a) = False"

definition invokes_impl :: "outcome \<Rightarrow> bool" where
  "invokes_impl out = list_ex is_Invoked (snd out)"

definition evaluates_checker :: "outcome \<Rightarrow> bool" where
  "evaluates_checker out = list_ex is_Checked (snd out)"

text \<open>\<^verbatim>\<open>throwError\<close>: the failure is built from the access level alone.\<close>

definition throwError :: "AccessLevel \<Rightarrow> js_error + js_value" where
  "throwError access = Inl (AccessNotGranted access)"

text \<open>
  \<^verbatim>\<open>wrapObject(impl, accessChecker, access)\<close> returns a proxy whose \<^verbatim>\<open>get\<close> trap answers
  every property name with a function. \<open>wrapObject impl accessChecker access methodName
  arguments\<close> is reading the member \<open>methodName\<close> of the proxy and calling it with
  \<open>arguments\<close>. The access level is a parameter of \<^verbatim>\<open>wrapObject\<close>: the proxy keeps the
  value it was built with.
\<close>

definition wrapObject ::
  "api_impl \<Rightarrow> AccessChecker \<Rightarrow> AccessLevel \<Rightarrow> string \<Rightarrow> js_value list \<Rightarrow> outcome" where
  "wrapObject impl accessChecker access methodName arguments =
     (if methodName = ''then'' then (Inr Undefined, [])
      else case accessChecker access (Some methodName) of
        Inl e \<Rightarrow> (Inl e, [Checked access (Some methodName)])
      | Inr granted \<Rightarrow>
          (if granted then
             (case impl methodName of
                None \<Rightarrow> (Inl (NotAFunction methodName), [Checked access (Some methodName)])
              | Some f \<Rightarrow>
                  (f arguments,
                   [Checked access (Some methodName), Invoked methodName arguments]))
           else (throwError access, [Checked access (Some methodName)])))"

text \<open>
  The \<^verbatim>\<open>get\<close> trap on its own, before any call. Reading a member of an object gives a
  function or nothing (\<open>None\<close> for undefined). The trap has one statement,
  \<^verbatim>\<open>return function () { ... }\<close>: whatever the name, \<^verbatim>\<open>then\<close> included, the read gives a
  function; the test \<^verbatim>\<open>methodName === 'then'\<close> stands inside that function and runs only
  when it is called. The function read under a name is the one \<open>wrapObject\<close> describes
  at that name.
\<close>

definition proxy_get ::
  "api_impl \<Rightarrow> AccessChecker \<Rightarrow> AccessLevel \<Rightarrow> string \<Rightarrow> (js_value list \<Rightarrow> outcome) option" where
  "proxy_get impl accessChecker access methodName =
     Some (wrapObject impl accessChecker access methodName)"

text \<open>
  The probe of a caller that pattern-matches for promise-like values: the object is taken
  for a thenable when reading its member \<^verbatim>\<open>then\<close> gives a function. The argument is the
  member read of the object probed.
\<close>

definition is_thenable :: "(string \<Rightarrow> 'f option) \<Rightarrow> bool" where
  "is_thenable get = (get ''then'' \<noteq> None)"

text \<open>
  \<^verbatim>\<open>GristDocAPIImpl.defaultAccess\<close>: \<^verbatim>\<open>getDocName\<close> at \<^verbatim>\<open>read_table\<close>, any other
  method at \<^verbatim>\<open>full\<close>.
\<close>

definition defaultAccess :: accessMap where
  "defaultAccess = require full None (require read_table (Some ''getDocName'') Map.empty)"

section \<open>The widget frame\<close>

text \<open>
  Messages of the transport (\<^verbatim>\<open>grain-rpc\<close>): the type tag \<^verbatim>\<open>mtype\<close>, the optional
  destination \<^verbatim>\<open>mdest\<close> and the rest of the envelope. A \<^verbatim>\<open>MessageEvent\<close> of the
  browser carries the window that sent it and the message.
\<close>

datatype MsgType = RpcCall | RpcRespData | RpcRespErr | Custom | Ready

record IMessage =
  mtype :: MsgType
  mdest :: "string option"
  mbody :: js_value

record MessageEvent =
  source :: nat
  data :: IMessage

text \<open>
  The outbound sender of the \<^verbatim>\<open>Rpc\<close> object: the constructor installs the function
  that posts to the iframe, disposal replaces it by \<^verbatim>\<open>noop\<close>.
\<close>

datatype sendMessage = PostToIframe | Noop

text \<open>The callbacks handed to \<^verbatim>\<open>onDispose\<close>, by what they do.\<close>

datatype disposer = StopTransport | UnregisterImpl string

text \<open>
  The state of a \<^verbatim>\<open>WidgetFrame\<close>:
  \<^item> \<open>options_access\<close> is \<^verbatim>\<open>this._options.access\<close>;
  \<^item> \<open>iframe\<close> is the content window of \<^verbatim>\<open>this._iframe\<close>, absent until \<^verbatim>\<open>buildDom\<close>;
  \<^item> \<open>windowListener\<close> tells whether the \<^verbatim>\<open>'message'\<close> listener is on the window;
  \<^item> \<open>rpc_impls\<close> and \<open>rpc_funcs\<close> are what \<^verbatim>\<open>registerImpl\<close> and \<^verbatim>\<open>registerFunc\<close>
    hold. A registered object is the proxy of \<open>wrapObject\<close>, with its level fixed. A
    registered function is the closure of \<^verbatim>\<open>exposeMethod\<close>, which reads
    \<^verbatim>\<open>this._options.access\<close> when it runs: it takes the level as an argument;
  \<^item> \<open>ready_triggered\<close> counts the calls of \<^verbatim>\<open>this.trigger('ready', this)\<close>;
  \<^item> \<open>rpc_received\<close> lists the messages handed to \<^verbatim>\<open>this._rpc.receiveMessage\<close>.
\<close>

record WidgetFrame =
  options_access :: AccessLevel
  iframe :: "nat option"
  isDisposed :: bool
  windowListener :: bool
  rpc_sendMessage :: sendMessage
  rpc_impls :: "string \<rightharpoonup> (string \<Rightarrow> js_value list \<Rightarrow> outcome)"
  rpc_funcs :: "string \<rightharpoonup> (AccessLevel \<Rightarrow> js_value list \<Rightarrow> outcome)"
  onDispose_list :: "disposer list"
  ready_triggered :: nat
  rpc_received :: "IMessage list"

text \<open>
  \<^verbatim>\<open>WidgetFrameOptions\<close>: the access level may be absent when the frame is constructed;
  \<^verbatim>\<open>configure\<close> is the optional callback that receives the new frame.
\<close>

record WidgetFrameOptions =
  url :: string
  access :: "AccessLevel option"
  readonly :: bool
  configure :: "(WidgetFrame \<Rightarrow> WidgetFrame) option"

text \<open>
  The constructor. \<^verbatim>\<open>_options.access = _options.access || AccessLevel.none\<close>, a fresh
  \<^verbatim>\<open>Rpc\<close> with the sender that posts to the iframe, the window listener and the disposal
  callback that removes both; then the configuration callback, if any.
\<close>

definition WidgetFrame_init :: "WidgetFrameOptions \<Rightarrow> WidgetFrame" where
  "WidgetFrame_init opts =
     \<lparr> options_access = (case access opts of None \<Rightarrow> none | Some a \<Rightarrow> a),
       iframe = None,
       isDisposed = False,
       windowListener = True,
       rpc_sendMessage = PostToIframe,
       rpc_impls = Map.empty,
       rpc_funcs = Map.empty,
       onDispose_list = [StopTransport],
       ready_triggered = 0,
       rpc_received = [] \<rparr>"

definition WidgetFrame_new :: "WidgetFrameOptions \<Rightarrow> WidgetFrame" where
  "WidgetFrame_new opts =
     (case configure opts of
        None \<Rightarrow> WidgetFrame_init opts
      | Some f \<Rightarrow> f (WidgetFrame_init opts))"

text \<open>
  \<^verbatim>\<open>exposeAPI\<close>: the proxy is built with the value \<^verbatim>\<open>this._options.access\<close> has now,
  and a disposal callback unregisters the name.
\<close>

definition exposeAPI ::
  "string \<Rightarrow> api_impl \<Rightarrow> AccessChecker \<Rightarrow> WidgetFrame \<Rightarrow> WidgetFrame" where
  "exposeAPI name api accessChecker frame =
     frame\<lparr> rpc_impls :=
               (rpc_impls frame)(name \<mapsto> wrapObject api accessChecker (options_access frame)),
            onDispose_list := onDispose_list frame @ [UnregisterImpl name] \<rparr>"

text \<open>
  The closure \<^verbatim>\<open>exposeMethod\<close> registers: a check of the current level under the method
  name \<^verbatim>\<open>'invoke'\<close>, then the handler or \<^verbatim>\<open>throwError\<close>.
\<close>

definition gatedFunc ::
  "method_impl \<Rightarrow> AccessChecker \<Rightarrow> AccessLevel \<Rightarrow> js_value list \<Rightarrow> outcome" where
  "gatedFunc handler accessChecker current args =
     (case accessChecker current (Some ''invoke'') of
        Inl e \<Rightarrow> (Inl e, [Checked current (Some ''invoke'')])
      | Inr granted \<Rightarrow>
          (if granted then
             (handler args, [Checked current (Some ''invoke''), Invoked ''invoke'' args])
           else (throwError current, [Checked current (Some ''invoke'')])))"

text \<open>\<^verbatim>\<open>exposeMethod\<close>: registers the closure; no disposal callback is added.\<close>

definition exposeMethod ::
  "string \<Rightarrow> method_impl \<Rightarrow> AccessChecker \<Rightarrow> WidgetFrame \<Rightarrow> WidgetFrame" where
  "exposeMethod name handler accessChecker frame =
     frame\<lparr> rpc_funcs := (rpc_funcs frame)(name \<mapsto> gatedFunc handler accessChecker) \<rparr>"

text \<open>
  A call from the widget, once the transport has found the registration: \<open>None\<close> when
  nothing is registered under the name.
\<close>

definition callImpl :: "WidgetFrame \<Rightarrow> string \<Rightarrow> string \<Rightarrow> js_value list \<Rightarrow> outcome option" where
  "callImpl frame name methodName args =
     (case rpc_impls frame name of
        None \<Rightarrow> None
      | Some proxy \<Rightarrow> Some (proxy methodName args))"

definition callFunc :: "WidgetFrame \<Rightarrow> string \<Rightarrow> js_value list \<Rightarrow> outcome option" where
  "callFunc frame name args =
     (case rpc_funcs frame name of
        None \<Rightarrow> None
      | Some g \<Rightarrow> Some (g (options_access frame) args))"

text \<open>
  The options object is shared with whoever constructed the frame; the class itself never
  assigns \<^verbatim>\<open>access\<close> after the constructor. \<open>assign_access\<close> is the owner's assignment
  \<^verbatim>\<open>options.access = level\<close> during the session.
\<close>

definition assign_access :: "AccessLevel \<Rightarrow> WidgetFrame \<Rightarrow> WidgetFrame" where
  "assign_access level frame = frame\<lparr> options_access := level \<rparr>"

text \<open>\<^verbatim>\<open>buildDom\<close> creates the iframe; \<open>w\<close> is its content window.\<close>

definition buildDom :: "nat \<Rightarrow> WidgetFrame \<Rightarrow> WidgetFrame" where
  "buildDom w frame = frame\<lparr> iframe := Some w \<rparr>"

text \<open>
  Modelled from the spec: disposal is inherited from \<^verbatim>\<open>DisposableWithEvents\<close>
  (\<^verbatim>\<open>app/common/DisposableWithEvents\<close>), which is not part of \<^verbatim>\<open>WidgetFrame.ts\<close>. The
  callbacks given to \<^verbatim>\<open>onDispose\<close> run once, last registered first, and the object is
  disposed from then on; disposing a disposed object does nothing.
\<close>

fun run_disposer :: "disposer \<Rightarrow> WidgetFrame \<Rightarrow> WidgetFrame" where
  "run_disposer StopTransport frame =
     frame\<lparr> windowListener := False, rpc_sendMessage := Noop \<rparr>"
| "run_disposer (UnregisterImpl name) frame =
     frame\<lparr> rpc_impls := (rpc_impls frame)(name := None) \<rparr>"

definition dispose :: "WidgetFrame \<Rightarrow> WidgetFrame" where
  "dispose frame =
     (if isDisposed frame then frame
      else (fold run_disposer (rev (onDispose_list frame)) frame)
             \<lparr> isDisposed := True, onDispose_list := [] \<rparr>)"

text \<open>\<^verbatim>\<open>_onMessage\<close>: the guard, the destination wipe, the ready trigger, the hand-over.\<close>

definition accepts :: "WidgetFrame \<Rightarrow> MessageEvent \<Rightarrow> bool" where
  "accepts frame event =
     (case iframe frame of
        None \<Rightarrow> False
      | Some w \<Rightarrow> source event = w \<and> \<not> isDisposed frame)"

definition wipe_mdest :: "IMessage \<Rightarrow> IMessage" where
  "wipe_mdest msg = (if mdest msg = Some ''grist'' then msg\<lparr> mdest := Some '''' \<rparr> else msg)"

definition onMessage :: "MessageEvent \<Rightarrow> WidgetFrame \<Rightarrow> WidgetFrame" where
  "onMessage event frame =
     (if accepts frame event then
        (let msg = wipe_mdest (data event);
             frame1 = (if mtype msg = Ready
                       then frame\<lparr> ready_triggered := ready_triggered frame + 1 \<rparr>
                       else frame)
         in frame1\<lparr> rpc_received := rpc_received frame1 @ [msg] \<rparr>)
      else frame)"

text \<open>The test \<^verbatim>\<open>event.data.mtype === MsgType.Ready\<close>, on an event.\<close>

definition is_ready :: "MessageEvent \<Rightarrow> bool" where
  "is_ready event = (mtype (data event) = Ready)"

text \<open>
  Modelled from the spec: how the transport (\<^verbatim>\<open>Rpc\<close> of \<^verbatim>\<open>grain-rpc\<close>, an external
  dependency) routes a message it receives. A message with a destination tag goes to the
  forwarder of that tag; a message whose tag is absent or empty is an ordinary message,
  dispatched to the local registrations.
\<close>

datatype route = Local | Forward string

definition rpc_route :: "IMessage \<Rightarrow> route" where
  "rpc_route msg =
     (case mdest msg of
        None \<Rightarrow> Local
      | Some d \<Rightarrow> if d = [] then Local else Forward d)"

section \<open>Event sources\<close>

text \<open>
  The host state the notifiers read: the table of the view section, the cursor's row, the
  sorted rows, the view fields and the section's custom options. A row id is a number or
  \<^verbatim>\<open>'new'\<close>; the cursor may have none.
\<close>

datatype UIRowId = RowNum int | RowNew

record host =
  tableId :: string
  cursor_rowId :: "UIRowId option"
  sortedRows :: "int list"
  viewFields :: "string list"
  activeCustomOptions :: js_value

text \<open>
  The three notifiers. A \<^verbatim>\<open>ConfigNotifier\<close> is constructed with the access level it
  reports.
\<close>

datatype notifier_class = RecordNotifier | ConfigNotifier AccessLevel | TableNotifier

text \<open>
  The payloads of \<^verbatim>\<open>trigger('event', data)\<close>: \<^verbatim>\<open>{tableId, rowId, dataChange}\<close> of the
  record and table notifiers, \<^verbatim>\<open>{options, settings: {accessLevel}}\<close> of the config
  notifier.
\<close>

datatype event_data =
    CursorState string "UIRowId option" bool
  | ConfigState js_value AccessLevel

text \<open>
  A notifier: its class, whether the timer of its debounced function is armed, whether it
  is disposed, and the payloads it has triggered so far, oldest first.
\<close>

record notifier =
  cls :: notifier_class
  debounce_pending :: bool
  src_disposed :: bool
  events :: "event_data list"

definition new_notifier :: "notifier_class \<Rightarrow> notifier" where
  "new_notifier c =
     \<lparr> cls = c, debounce_pending = False, src_disposed = False, events = [] \<rparr>"

text \<open>\<^verbatim>\<open>BaseEventSource._notify\<close>.\<close>

definition notify :: "event_data \<Rightarrow> notifier \<Rightarrow> notifier" where
  "notify d n = (if src_disposed n then n else n\<lparr> events := events n @ [d] \<rparr>)"

text \<open>\<^verbatim>\<open>rowId || undefined\<close>: a missing row id and the number 0 both give undefined.\<close>

definition or_undefined :: "UIRowId option \<Rightarrow> UIRowId option" where
  "or_undefined r = (if r = Some (RowNum 0) then None else r)"

text \<open>The state each class reads when its \<^verbatim>\<open>_update\<close> runs.\<close>

definition snapshot :: "notifier_class \<Rightarrow> host \<Rightarrow> event_data" where
  "snapshot c h =
     (case c of
        RecordNotifier \<Rightarrow> CursorState (tableId h) (or_undefined (cursor_rowId h)) False
      | ConfigNotifier accessLevel \<Rightarrow> ConfigState (activeCustomOptions h) accessLevel
      | TableNotifier \<Rightarrow> CursorState (tableId h) (or_undefined (cursor_rowId h)) True)"

text \<open>The \<^verbatim>\<open>_update\<close> methods: nothing when disposed, else notify the state read now.\<close>

definition update :: "host \<Rightarrow> notifier \<Rightarrow> notifier" where
  "update h n = (if src_disposed n then n else notify (snapshot (cls n) h) n)"

text \<open>
  Modelled from the spec: \<^verbatim>\<open>debounce(() => this._update(), 0)\<close> of \<^verbatim>\<open>lodash\<close>, an
  external dependency. With zero delay the calls made within one turn of the scheduler
  collapse: each call arms the timer, and when the turn is over the timer runs
  \<^verbatim>\<open>_update\<close> once. \<open>debounced\<close> is a call of the debounced function, \<open>timer\<close> the
  timer firing after the turn.
\<close>

definition debounced :: "notifier \<Rightarrow> notifier" where
  "debounced n = n\<lparr> debounce_pending := True \<rparr>"

definition timer :: "host \<Rightarrow> notifier \<Rightarrow> notifier" where
  "timer h n =
     (if debounce_pending n then update h (n\<lparr> debounce_pending := False \<rparr>) else n)"

text \<open>
  The listener \<^verbatim>\<open>attach\<close> registers for the frame's \<^verbatim>\<open>'ready'\<close> event:
  \<^verbatim>\<open>BaseEventSource._ready\<close> does nothing, \<^verbatim>\<open>ConfigNotifier\<close> and \<^verbatim>\<open>TableNotifier\<close>
  override it with a call of the debounced function, \<^verbatim>\<open>RecordNotifier\<close> does not
  override it.
\<close>

definition ready :: "notifier \<Rightarrow> notifier" where
  "ready n =
     (case cls n of
        RecordNotifier \<Rightarrow> n
      | ConfigNotifier accessLevel \<Rightarrow> debounced n
      | TableNotifier \<Rightarrow> debounced n)"








section \<open>Sample inputs\<close>

text \<open>\<^verbatim>\<open>new MethodAccess()\<close>: a table with no entries.\<close>

definition new_MethodAccess :: accessMap where
  "new_MethodAccess = Map.empty"

text \<open>
  An implementation with the four methods of \<^verbatim>\<open>GristDocAPIImpl\<close>; the values returned
  stand for what the document would answer.
\<close>

definition sampleDocAPI :: api_impl where
  "sampleDocAPI =
     [''getDocName'' \<mapsto> (\<lambda>args. Inr (JStr ''doc'')),
      ''listTables'' \<mapsto> (\<lambda>args. Inr Null),
      ''fetchTable'' \<mapsto> (\<lambda>args. Inr Null),
      ''applyUserActions'' \<mapsto> (\<lambda>args. Inr Null)]"

definition sampleHandler :: method_impl where
  "sampleHandler = (\<lambda>args. Inr Null)"

text \<open>Options that leave the access level out; a ready message and a call tagged for
  \<^verbatim>\<open>'grist'\<close>; a view of three rows.\<close>

definition sampleOptions :: WidgetFrameOptions where
  "sampleOptions =
     \<lparr> url = ''https://widget.example/'', access = None, readonly = False,
       configure = None \<rparr>"

definition readyMessage :: IMessage where
  "readyMessage = \<lparr> mtype = Ready, mdest = None, mbody = Null \<rparr>"

definition gristCall :: IMessage where
  "gristCall = \<lparr> mtype = RpcCall, mdest = Some ''grist'', mbody = JStr ''getDocName'' \<rparr>"

definition sampleHost :: host where
  "sampleHost =
     \<lparr> tableId = ''Table1'', cursor_rowId = Some (RowNum 2), sortedRows = [1, 2, 3],
       viewFields = [''A'', ''B''], activeCustomOptions = Null \<rparr>"

text \<open>
  A frame built from those options whose iframe has the content window 1, and two events
  sent by that window.
\<close>

definition attachedFrame :: WidgetFrame where
  "attachedFrame = buildDom 1 (WidgetFrame_new sampleOptions)"

definition readyEvent :: MessageEvent where
  "readyEvent = \<lparr> source = 1, data = readyMessage \<rparr>"

definition gristEvent :: MessageEvent where
  "gristEvent = \<lparr> source = 1, data = gristCall \<rparr>"

text \<open>
  A frame on which \<^verbatim>\<open>GristDocAPI\<close> is exposed with \<^verbatim>\<open>exposeAPI\<close> and a function with
  \<^verbatim>\<open>exposeMethod\<close>.
\<close>

definition exposingFrame :: WidgetFrame where
  "exposingFrame =
     exposeMethod ''configure'' sampleHandler (MinimumLevel_check none)
       (exposeAPI ''GristDocAPI'' sampleDocAPI (MethodAccess_check defaultAccess)
          attachedFrame)"



section \<open>Properties of the checkers and of the gate\<close>

lemma spec_resolved_rule_cases:
  "spec_resolved_rule T m =
     (case T m of Some lv \<Rightarrow> Some lv | None \<Rightarrow> T ''*'')"
  by (auto simp: spec_resolved_rule_def dom_def split: option.splits)

lemma MethodAccess_check_nonempty:
  "m \<noteq> [] \<Longrightarrow> MethodAccess_check T L (Some m) = Inr (spec_permits T L m)"
  by (simp add: MethodAccess_check_def not_method_def spec_permits_def
      spec_resolved_rule_cases isSatisfied_def split: option.splits)

lemma MethodAccess_check_empty_name:
  "MethodAccess_check T L (Some []) = Inl MethodNameRequired"
  by (simp add: MethodAccess_check_def not_method_def)

text \<open>
  C1, as the code has it. For every granted level \<open>L\<close>, every table \<open>T\<close> and every
  non-empty method name \<open>m\<close>, \<open>check(L, m)\<close> returns true exactly when the rule resolved
  for \<open>m\<close> (exact entry, else wildcard, else implicit deny) has a minimum below or equal
  to \<open>L\<close>; a table with no entries returns false for every non-empty name. The empty
  string is taken by the guard \<^verbatim>\<open>!method\<close> for a missing name: the check throws
  instead of returning.
\<close>

theorem MethodAccess_check_resolved:
  "MethodAccess_check T L (Some m) =
     (if m = [] then Inl MethodNameRequired else Inr (spec_permits T L m))
   \<and> MethodAccess_check new_MethodAccess L (Some m) =
     (if m = [] then Inl MethodNameRequired else Inr False)"
proof (cases "m = []")
  case True
  then show ?thesis by (simp add: MethodAccess_check_empty_name)
next
  case False
  have "spec_permits new_MethodAccess L m = False"
    by (simp add: spec_permits_def spec_resolved_rule_def new_MethodAccess_def)
  with False show ?thesis
    by (simp add: MethodAccess_check_nonempty)
qed

text \<open>
  C1 as stated fails at the empty method name: with a wildcard rule of minimum \<open>none\<close>
  the rule resolved for the empty name is satisfied at level \<open>full\<close>, yet the check does
  not return true, and the empty table does not return false for it.
\<close>

theorem MethodAccess_check_empty_name_counterexample:
  "spec_permits (require none None new_MethodAccess) full ''''
   \<and> MethodAccess_check (require none None new_MethodAccess) full (Some '''') \<noteq> Inr True
   \<and> MethodAccess_check new_MethodAccess full (Some '''') \<noteq> Inr False"
  by (simp add: MethodAccess_check_empty_name spec_permits_def spec_resolved_rule_def
      require_def new_MethodAccess_def)

lemma isSatisfied_none: "isSatisfied none minimum = (minimum = none)"
  by (cases minimum) (simp_all add: isSatisfied_def)

lemma ordered_le_2: "ordered minimum \<le> 2"
  by (cases minimum) simp_all

lemma ordered_eq_0: "(ordered minimum = 0) = (minimum = none)"
  by (cases minimum) simp_all

text \<open>
  C2, as the code has it. For every wrapped object, every method name and every argument
  list, if the access checker returns false for the name then the underlying
  implementation is not invoked, and the call raises the access-denied failure, which is
  built from the granted level alone; the name \<^verbatim>\<open>then\<close> is answered with undefined
  before any check, so nothing is raised for it.
\<close>

theorem wrapObject_denied:
  assumes "accessChecker level (Some methodName) = Inr False"
  shows "\<not> invokes_impl (wrapObject impl accessChecker level methodName arguments)
    \<and> fst (wrapObject impl accessChecker level methodName arguments) =
        (if methodName = ''then'' then Inr Undefined else Inl (AccessNotGranted level))"
  using assms by (simp add: wrapObject_def invokes_impl_def throwError_def)

theorem wrapObject_denied_witness:
  "MethodAccess_check defaultAccess read_table (Some ''fetchTable'') = Inr False
   \<and> \<not> invokes_impl
        (wrapObject sampleDocAPI (MethodAccess_check defaultAccess) read_table
           ''fetchTable'' [JStr ''Table1''])
   \<and> fst (wrapObject sampleDocAPI (MethodAccess_check defaultAccess) read_table
           ''fetchTable'' [JStr ''Table1'']) = Inl (AccessNotGranted read_table)"
proof -
  have denied: "MethodAccess_check defaultAccess read_table (Some ''fetchTable'') = Inr False"
    by (simp add: MethodAccess_check_def not_method_def defaultAccess_def require_def
        isSatisfied_def)
  from denied
    wrapObject_denied [where accessChecker = "MethodAccess_check defaultAccess"
      and level = read_table and methodName = "''fetchTable''" and impl = sampleDocAPI
      and arguments = "[JStr ''Table1'']"]
  show ?thesis by simp
qed

text \<open>
  C2 as stated fails: two denied calls of different methods raise the same failure, which
  holds the level and no method name; and for the name \<^verbatim>\<open>then\<close> a checker that returns
  false leads to no failure at all.
\<close>

theorem wrapObject_denied_counterexample:
  "MethodAccess_check new_MethodAccess none (Some ''fetchTable'') = Inr False
   \<and> MethodAccess_check new_MethodAccess none (Some ''listTables'') = Inr False
   \<and> fst (wrapObject sampleDocAPI (MethodAccess_check new_MethodAccess) none
           ''fetchTable'' []) = Inl (AccessNotGranted none)
   \<and> fst (wrapObject sampleDocAPI (MethodAccess_check new_MethodAccess) none
           ''listTables'' []) = Inl (AccessNotGranted none)
   \<and> MinimumLevel_check full none (Some ''then'') = Inr False
   \<and> fst (wrapObject sampleDocAPI (MinimumLevel_check full) none ''then'' [])
       = Inr Undefined"
  by (simp add: wrapObject_def MethodAccess_check_def not_method_def new_MethodAccess_def
      MinimumLevel_check_def isSatisfied_def throwError_def)

text \<open>
  C9, on the code. The document API has no member \<^verbatim>\<open>then\<close> and is no thenable. Its
  gated wrapper is probed: the read of \<^verbatim>\<open>then\<close> gives a function, for every wrapper and
  every level, so the probe finds the capability instead of reporting that there is none.
  Calling the function read returns undefined, with no evaluation of the access checker,
  no invocation of the implementation and nothing thrown; it does nothing with the
  arguments it is given either, so whoever waits on the wrapper as on a promise is never
  answered.
\<close>

theorem proxy_then_probe_finds_function:
  "\<not> is_thenable sampleDocAPI
   \<and> is_thenable (proxy_get sampleDocAPI (MethodAccess_check defaultAccess) none)
   \<and> is_thenable (proxy_get impl accessChecker level)
   \<and> proxy_get impl accessChecker level ''then'' =
       Some (wrapObject impl accessChecker level ''then'')
   \<and> wrapObject impl accessChecker level ''then'' arguments = (Inr Undefined, [])
   \<and> \<not> invokes_impl (wrapObject impl accessChecker level ''then'' arguments)
   \<and> \<not> evaluates_checker (wrapObject impl accessChecker level ''then'' arguments)"
  by (simp add: is_thenable_def proxy_get_def sampleDocAPI_def wrapObject_def
      invokes_impl_def evaluates_checker_def)

section \<open>Properties of the widget frame\<close>

lemma wrapObject_MethodAccess_full:
  "wrapObject api (MethodAccess_check T) full m args =
     (if m = ''then'' then (Inr Undefined, [])
      else if m = [] then (Inl MethodNameRequired, [Checked full (Some m)])
      else case spec_resolved_rule T m of
        None \<Rightarrow> (Inl (AccessNotGranted full), [Checked full (Some m)])
      | Some minimum \<Rightarrow>
          (case api m of
             None \<Rightarrow> (Inl (NotAFunction m), [Checked full (Some m)])
           | Some f \<Rightarrow> (f args, [Checked full (Some m), Invoked m args])))"
  by (simp add: wrapObject_def MethodAccess_check_nonempty MethodAccess_check_empty_name
      spec_permits_def throwError_def ordered_le_2 split: option.splits)

lemma wrapObject_MethodAccess_none:
  "wrapObject api (MethodAccess_check T) none m args =
     (if m = ''then'' then (Inr Undefined, [])
      else if m = [] then (Inl MethodNameRequired, [Checked none (Some m)])
      else if spec_resolved_rule T m = Some none then
          (case api m of
             None \<Rightarrow> (Inl (NotAFunction m), [Checked none (Some m)])
           | Some f \<Rightarrow> (f args, [Checked none (Some m), Invoked m args]))
      else (Inl (AccessNotGranted none), [Checked none (Some m)]))"
  by (simp add: wrapObject_def MethodAccess_check_nonempty MethodAccess_check_empty_name
      spec_permits_def throwError_def ordered_eq_0 split: option.splits)

text \<open>
  C3, as the code has it. The proxy registered by \<^verbatim>\<open>exposeAPI\<close> keeps the level the
  bridge had when \<^verbatim>\<open>exposeAPI\<close> was called: assigning another level afterwards changes the
  outcome of no call on it, so a call denied at \<open>none\<close> stays denied after the level is
  raised to \<open>full\<close>. An implementation registered while the level is \<open>full\<close> is gated at
  \<open>full\<close>, where a method-access table admits every method it resolves a rule for; a
  function registered by \<^verbatim>\<open>exposeMethod\<close> is gated at the level of the moment of the call.
\<close>

theorem exposeAPI_level_fixed:
  "callImpl (assign_access L (exposeAPI name api chk frame)) name m args =
     Some (wrapObject api chk (options_access frame) m args)
   \<and> callImpl (exposeAPI name api chk (assign_access L frame)) name m args =
     Some (wrapObject api chk L m args)
   \<and> callFunc (assign_access L (exposeMethod name handler chk frame)) name args =
     Some (gatedFunc handler chk L args)
   \<and> wrapObject api (MethodAccess_check T) full m args =
     (if m = ''then'' then (Inr Undefined, [])
      else if m = [] then (Inl MethodNameRequired, [Checked full (Some m)])
      else case spec_resolved_rule T m of
        None \<Rightarrow> (Inl (AccessNotGranted full), [Checked full (Some m)])
      | Some minimum \<Rightarrow>
          (case api m of
             None \<Rightarrow> (Inl (NotAFunction m), [Checked full (Some m)])
           | Some f \<Rightarrow> (f args, [Checked full (Some m), Invoked m args])))"
  by (simp add: callImpl_def callFunc_def exposeAPI_def exposeMethod_def assign_access_def
      wrapObject_MethodAccess_full)

text \<open>
  C3 as stated fails: \<^verbatim>\<open>GristDocAPI\<close> is exposed under its default table while the level
  is \<open>none\<close>; \<^verbatim>\<open>getDocName\<close> is denied, the level is raised to \<open>full\<close>, and the same call
  is denied again, with the failure still naming the level \<open>none\<close>.
\<close>

theorem exposeAPI_raise_counterexample:
  "options_access (WidgetFrame_new sampleOptions) = none
   \<and> callImpl
       (exposeAPI ''GristDocAPI'' sampleDocAPI (MethodAccess_check defaultAccess)
          (WidgetFrame_new sampleOptions))
       ''GristDocAPI'' ''getDocName'' []
     = Some (Inl (AccessNotGranted none), [Checked none (Some ''getDocName'')])
   \<and> options_access
       (assign_access full
          (exposeAPI ''GristDocAPI'' sampleDocAPI (MethodAccess_check defaultAccess)
             (WidgetFrame_new sampleOptions))) = full
   \<and> callImpl
       (assign_access full
          (exposeAPI ''GristDocAPI'' sampleDocAPI (MethodAccess_check defaultAccess)
             (WidgetFrame_new sampleOptions)))
       ''GristDocAPI'' ''getDocName'' []
     = Some (Inl (AccessNotGranted none), [Checked none (Some ''getDocName'')])"
  by (simp add: callImpl_def exposeAPI_def assign_access_def WidgetFrame_new_def
      WidgetFrame_init_def sampleOptions_def wrapObject_def MethodAccess_check_def
      not_method_def defaultAccess_def require_def isSatisfied_def throwError_def)

text \<open>
  C10, as the code has it. A bridge constructed with the access level absent is the
  bridge constructed with the level \<open>none\<close>: the level stored before the configuration
  callback runs is \<open>none\<close>, and every call gated on that frame is decided at \<open>none\<close>.
  It is denied unless the checker admits \<open>none\<close>: a threshold checker of minimum
  \<open>none\<close>, or a table whose rule resolved for the method has the minimum \<open>none\<close>,
  lets the call through.
\<close>

theorem WidgetFrame_new_absent_access:
  "WidgetFrame_new (opts\<lparr> access := None \<rparr>) = WidgetFrame_new (opts\<lparr> access := Some none \<rparr>)
   \<and> options_access (WidgetFrame_init (opts\<lparr> access := None \<rparr>)) = none
   \<and> callImpl (exposeAPI name api chk (WidgetFrame_init (opts\<lparr> access := None \<rparr>)))
        name m args = Some (wrapObject api chk none m args)
   \<and> callFunc (exposeMethod name handler chk (WidgetFrame_init (opts\<lparr> access := None \<rparr>)))
        name args = Some (gatedFunc handler chk none args)
   \<and> gatedFunc handler (MinimumLevel_check minimum) none args =
       (if minimum = none
        then (handler args, [Checked none (Some ''invoke''), Invoked ''invoke'' args])
        else (Inl (AccessNotGranted none), [Checked none (Some ''invoke'')]))
   \<and> wrapObject api (MethodAccess_check T) none m args =
       (if m = ''then'' then (Inr Undefined, [])
        else if m = [] then (Inl MethodNameRequired, [Checked none (Some m)])
        else if spec_resolved_rule T m = Some none then
          (case api m of
             None \<Rightarrow> (Inl (NotAFunction m), [Checked none (Some m)])
           | Some f \<Rightarrow> (f args, [Checked none (Some m), Invoked m args]))
        else (Inl (AccessNotGranted none), [Checked none (Some m)]))"
  by (simp add: WidgetFrame_new_def WidgetFrame_init_def callImpl_def callFunc_def
      exposeAPI_def exposeMethod_def gatedFunc_def MinimumLevel_check_def isSatisfied_none
      throwError_def wrapObject_MethodAccess_none split: option.splits)

text \<open>
  C10 as stated fails: on a bridge constructed without a level, a function exposed under
  the threshold \<open>none\<close> and a method whose rule has the minimum \<open>none\<close> are both
  called through, not denied.
\<close>

theorem WidgetFrame_new_absent_access_counterexample:
  "access sampleOptions = None
   \<and> callFunc
       (exposeMethod ''configure'' sampleHandler (MinimumLevel_check none)
          (WidgetFrame_new sampleOptions)) ''configure'' []
     = Some (Inr Null, [Checked none (Some ''invoke''), Invoked ''invoke'' []])
   \<and> callImpl
       (exposeAPI ''GristDocAPI'' sampleDocAPI
          (MethodAccess_check (require none (Some ''getDocName'') new_MethodAccess))
          (WidgetFrame_new sampleOptions)) ''GristDocAPI'' ''getDocName'' []
     = Some (Inr (JStr ''doc''),
             [Checked none (Some ''getDocName''), Invoked ''getDocName'' []])"
  by (simp add: callImpl_def callFunc_def exposeAPI_def exposeMethod_def gatedFunc_def
      WidgetFrame_new_def WidgetFrame_init_def sampleOptions_def sampleHandler_def
      sampleDocAPI_def wrapObject_def MethodAccess_check_def not_method_def
      MinimumLevel_check_def new_MethodAccess_def require_def isSatisfied_def)

lemma onMessage_keeps:
  "iframe (onMessage event frame) = iframe frame"
  "isDisposed (onMessage event frame) = isDisposed frame"
  by (simp_all add: onMessage_def Let_def)

lemma onMessage_accepted:
  "accepts frame event \<Longrightarrow>
     ready_triggered (onMessage event frame) =
       ready_triggered frame + (if is_ready event then 1 else 0)
     \<and> rpc_received (onMessage event frame) =
       rpc_received frame @ [wipe_mdest (data event)]"
  by (simp add: onMessage_def Let_def is_ready_def wipe_mdest_def)

lemma fold_onMessage_accepted:
  "iframe frame = Some w \<Longrightarrow> \<not> isDisposed frame \<Longrightarrow> \<forall>event \<in> set evs. source event = w \<Longrightarrow>
     ready_triggered (fold onMessage evs frame) =
       ready_triggered frame + length (filter is_ready evs)
     \<and> rpc_received (fold onMessage evs frame) =
       rpc_received frame @ map (\<lambda>event. wipe_mdest (data event)) evs"
proof (induction evs arbitrary: frame)
  case Nil
  then show ?case by simp
next
  case (Cons event evs)
  have acc: "accepts frame event"
    using Cons.prems by (simp add: accepts_def)
  have "iframe (onMessage event frame) = Some w" "\<not> isDisposed (onMessage event frame)"
    using Cons.prems by (simp_all add: onMessage_keeps)
  moreover have "\<forall>e \<in> set evs. source e = w"
    using Cons.prems by simp
  ultimately have
    "ready_triggered (fold onMessage evs (onMessage event frame)) =
       ready_triggered (onMessage event frame) + length (filter is_ready evs)
     \<and> rpc_received (fold onMessage evs (onMessage event frame)) =
       rpc_received (onMessage event frame) @ map (\<lambda>event. wipe_mdest (data event)) evs"
    by (rule Cons.IH)
  with onMessage_accepted [OF acc] show ?case by simp
qed

text \<open>
  C5, as the code has it. For every sequence of inbound messages from the attached iframe,
  the \<^verbatim>\<open>'ready'\<close> event is triggered once for each ready-type message of the sequence,
  so exactly once only when the sequence holds exactly one; and every message, ready-type
  or not, is handed on to normal processing, in order.
\<close>

theorem onMessage_ready_each:
  assumes "iframe frame = Some w"
    and "\<not> isDisposed frame"
    and "\<forall>event \<in> set evs. source event = w"
  shows "ready_triggered (fold onMessage evs frame) =
           ready_triggered frame + length (filter is_ready evs)
    \<and> rpc_received (fold onMessage evs frame) =
           rpc_received frame @ map (\<lambda>event. wipe_mdest (data event)) evs"
  using assms by (rule fold_onMessage_accepted)

theorem onMessage_ready_each_witness:
  "iframe attachedFrame = Some 1
   \<and> \<not> isDisposed attachedFrame
   \<and> list_all (\<lambda>event. source event = 1) [readyEvent, gristEvent, readyEvent]
   \<and> ready_triggered (fold onMessage [readyEvent, gristEvent, readyEvent] attachedFrame) = 2
   \<and> length (rpc_received
        (fold onMessage [readyEvent, gristEvent, readyEvent] attachedFrame)) = 3"
proof -
  have a: "iframe attachedFrame = Some 1" and b: "\<not> isDisposed attachedFrame"
    and r: "ready_triggered attachedFrame = 0" "rpc_received attachedFrame = []"
    by (simp_all add: attachedFrame_def buildDom_def WidgetFrame_new_def
        WidgetFrame_init_def sampleOptions_def)
  have c: "\<forall>event \<in> set [readyEvent, gristEvent, readyEvent]. source event = 1"
    by (simp add: readyEvent_def gristEvent_def)
  have f: "length (filter is_ready [readyEvent, gristEvent, readyEvent]) = 2"
    by (simp add: is_ready_def readyEvent_def gristEvent_def readyMessage_def
        gristCall_def)
  from onMessage_ready_each [OF a b c] a b c r f show ?thesis
    by (simp add: list_all_iff)
qed

text \<open>
  C5 as stated fails: two ready messages from the attached iframe trigger the
  \<^verbatim>\<open>'ready'\<close> event twice.
\<close>

theorem onMessage_ready_once_counterexample:
  "ready_triggered attachedFrame = 0
   \<and> accepts attachedFrame readyEvent
   \<and> is_ready readyEvent
   \<and> ready_triggered (onMessage readyEvent attachedFrame) = 1
   \<and> ready_triggered (onMessage readyEvent (onMessage readyEvent attachedFrame)) = 2"
  by (simp add: onMessage_def accepts_def is_ready_def wipe_mdest_def Let_def
      attachedFrame_def buildDom_def WidgetFrame_new_def WidgetFrame_init_def
      sampleOptions_def readyEvent_def readyMessage_def)

text \<open>
  C6. For every inbound message whose destination is \<^verbatim>\<open>'grist'\<close>: when the bridge takes
  the message in (it comes from the window of the attached iframe and the bridge is not
  disposed), the message handed to the transport is the message with the destination
  cleared, which the transport dispatches locally and does not forward; a message the
  guard turns away is dropped, nothing is handed on. Either way the frame ends in the very
  state it reaches for the same message with an empty destination, and the cleared
  message is routed as a message with no destination is.
\<close>

theorem onMessage_grist_local:
  assumes "mdest (data event) = Some ''grist''"
  shows "rpc_received (onMessage event frame) =
           (if accepts frame event
            then rpc_received frame @ [(data event)\<lparr> mdest := Some '''' \<rparr>]
            else rpc_received frame)
    \<and> rpc_route ((data event)\<lparr> mdest := Some '''' \<rparr>) = Local
    \<and> onMessage event frame =
        onMessage (event\<lparr> data := (data event)\<lparr> mdest := Some '''' \<rparr> \<rparr>) frame
    \<and> rpc_route ((data event)\<lparr> mdest := Some '''' \<rparr>) =
        rpc_route ((data event)\<lparr> mdest := None \<rparr>)"
  using assms
  by (simp add: onMessage_def accepts_def wipe_mdest_def rpc_route_def Let_def
      split: option.splits)

theorem onMessage_grist_local_witness:
  "mdest (data gristEvent) = Some ''grist''
   \<and> accepts attachedFrame gristEvent
   \<and> rpc_received (onMessage gristEvent attachedFrame) =
       [\<lparr> mtype = RpcCall, mdest = Some '''', mbody = JStr ''getDocName'' \<rparr>]
   \<and> rpc_route \<lparr> mtype = RpcCall, mdest = Some '''', mbody = JStr ''getDocName'' \<rparr> = Local"
proof -
  have a: "mdest (data gristEvent) = Some ''grist''"
    by (simp add: gristEvent_def gristCall_def)
  have b: "accepts attachedFrame gristEvent"
    by (simp add: accepts_def attachedFrame_def buildDom_def WidgetFrame_new_def
        WidgetFrame_init_def sampleOptions_def gristEvent_def)
  have c: "rpc_received attachedFrame = []"
    by (simp add: attachedFrame_def buildDom_def WidgetFrame_new_def WidgetFrame_init_def
        sampleOptions_def)
  have d: "(data gristEvent)\<lparr> mdest := Some '''' \<rparr> =
      \<lparr> mtype = RpcCall, mdest = Some '''', mbody = JStr ''getDocName'' \<rparr>"
    by (simp add: gristEvent_def gristCall_def)
  note th = onMessage_grist_local [OF a, of attachedFrame]
  have r: "rpc_received (onMessage gristEvent attachedFrame) =
      (if accepts attachedFrame gristEvent
       then rpc_received attachedFrame @ [(data gristEvent)\<lparr> mdest := Some '''' \<rparr>]
       else rpc_received attachedFrame)"
    using th by (rule conjunct1)
  have l: "rpc_route ((data gristEvent)\<lparr> mdest := Some '''' \<rparr>) = Local"
    using th by (rule conjunct1 [OF conjunct2])
  from a b c d r l show ?thesis by simp
qed

lemma fold_run_disposer_funcs:
  "rpc_funcs (fold run_disposer ds frame) = rpc_funcs frame"
proof (induction ds arbitrary: frame)
  case Nil
  then show ?case by simp
next
  case (Cons d ds)
  then show ?case by (cases d) simp_all
qed

lemma dispose_funcs: "rpc_funcs (dispose frame) = rpc_funcs frame"
  by (simp add: dispose_def fold_run_disposer_funcs)

text \<open>
  C7, on the code. Disposing a frame that exposes \<^verbatim>\<open>GristDocAPI\<close> with \<^verbatim>\<open>exposeAPI\<close> and
  \<^verbatim>\<open>configure\<close> with \<^verbatim>\<open>exposeMethod\<close> removes the window listener, replaces the sender
  by the no-op and unregisters \<^verbatim>\<open>GristDocAPI\<close>; the function \<^verbatim>\<open>configure\<close> stays
  registered: \<^verbatim>\<open>exposeMethod\<close> adds no disposal callback.
\<close>

theorem dispose_leaves_exposeMethod:
  "\<not> windowListener (dispose exposingFrame)
   \<and> rpc_sendMessage (dispose exposingFrame) = Noop
   \<and> rpc_impls exposingFrame ''GristDocAPI'' \<noteq> None
   \<and> rpc_impls (dispose exposingFrame) ''GristDocAPI'' = None
   \<and> rpc_funcs exposingFrame ''configure'' \<noteq> None
   \<and> rpc_funcs (dispose exposingFrame) ''configure'' \<noteq> None"
  by (simp add: dispose_def exposingFrame_def exposeMethod_def exposeAPI_def
      attachedFrame_def buildDom_def WidgetFrame_new_def WidgetFrame_init_def
      sampleOptions_def)

section \<open>Properties of the event sources\<close>

lemma ready_then_timer:
  "\<not> src_disposed n \<Longrightarrow> \<not> debounce_pending n \<Longrightarrow>
     events (timer h (ready n)) =
       (case cls n of
          RecordNotifier \<Rightarrow> events n
        | ConfigNotifier a \<Rightarrow> events n @ [snapshot (cls n) h]
        | TableNotifier \<Rightarrow> events n @ [snapshot (cls n) h])"
  by (simp add: timer_def ready_def debounced_def update_def notify_def
      split: notifier_class.splits)

text \<open>
  C4, on the code. Each notifier is attached and unchanged when the ready event fires,
  and the timer runs afterwards: the table notifier and the config notifier have
  triggered one event with their current state, the record notifier has triggered none
  and has nothing pending.
\<close>

theorem RecordNotifier_silent_on_ready:
  "events (timer sampleHost (ready (new_notifier TableNotifier))) =
     [CursorState ''Table1'' (Some (RowNum 2)) True]
   \<and> events (timer sampleHost (ready (new_notifier (ConfigNotifier read_table)))) =
     [ConfigState Null read_table]
   \<and> events (timer sampleHost (ready (new_notifier RecordNotifier))) = []
   \<and> \<not> debounce_pending (ready (new_notifier RecordNotifier))"
  by (simp add: timer_def ready_def debounced_def update_def notify_def snapshot_def
      or_undefined_def new_notifier_def sampleHost_def)















end
